theory Spec2Isabelle
  imports Complex_Main "HOL-Library.Char_ord" "HOL-Library.List_Lexorder"
begin

section \<open>Text primitives of the Python runtime\<close>

text \<open>
  A Python \<open>str\<close> is modelled as a \<open>string\<close> whose characters are the code points
  0..255. On that range \<open>str.lower()\<close> moves the ASCII capitals A-Z and the Latin-1
  capitals U+00C0..U+00DE (without the multiplication sign U+00D7) up by 32 and leaves
  every other character alone.
\<close>

definition lower_char :: "char \<Rightarrow> char" where
  "lower_char c =
     (let n = (of_char c :: nat)
      in if (65 \<le> n \<and> n \<le> 90) \<or> (192 \<le> n \<and> n \<le> 222 \<and> n \<noteq> 215)
         then char_of (n + 32) else c)"

definition lower :: "string \<Rightarrow> string" where
  "lower s = map lower_char s"

text \<open>
  The characters for which \<open>str.isspace()\<close> holds; they are also the class \<open>\s\<close> of the
  \<open>re\<close> module on a \<open>str\<close> pattern.
\<close>

definition is_space :: "char \<Rightarrow> bool" where
  "is_space c =
     (let n = (of_char c :: nat)
      in (9 \<le> n \<and> n \<le> 13) \<or> (28 \<le> n \<and> n \<le> 32) \<or> n = 133 \<or> n = 160)"

text \<open>The class \<open>\w\<close> of the \<open>re\<close> module: alphanumeric characters and the underscore.\<close>

definition is_word :: "char \<Rightarrow> bool" where
  "is_word c =
     (let n = (of_char c :: nat)
      in (48 \<le> n \<and> n \<le> 57) \<or> (65 \<le> n \<and> n \<le> 90) \<or> n = 95 \<or> (97 \<le> n \<and> n \<le> 122)
         \<or> n = 170 \<or> n = 178 \<or> n = 179 \<or> n = 181 \<or> n = 185 \<or> n = 186
         \<or> (188 \<le> n \<and> n \<le> 190)
         \<or> (192 \<le> n \<and> n \<le> 214) \<or> (216 \<le> n \<and> n \<le> 246) \<or> 248 \<le> n)"

text \<open>\<open>str.strip()\<close>: whitespace is removed at both ends.\<close>

definition strip :: "string \<Rightarrow> string" where
  "strip s = rev (dropWhile is_space (rev (dropWhile is_space s)))"

text \<open>The operator \<open>sub in s\<close> on strings: \<open>sub\<close> occurs in \<open>s\<close> as a contiguous run.\<close>

fun starts_with :: "string \<Rightarrow> string \<Rightarrow> bool" where
  "starts_with [] s = True"
| "starts_with (x # xs) [] = False"
| "starts_with (x # xs) (y # ys) = (x = y \<and> starts_with xs ys)"

fun contains :: "string \<Rightarrow> string \<Rightarrow> bool" where
  "contains sub [] = starts_with sub []"
| "contains sub (c # cs) = (starts_with sub (c # cs) \<or> contains sub cs)"

section \<open>The regular expressions of the crisis patterns\<close>

text \<open>
  The four patterns of \<open>detect_crisis\<close> are sequences of three kinds of item: a literal
  character, the assertion \<open>\b\<close> and the repetition \<open>\s+\<close>. \<open>re_match\<close> decides whether a
  pattern matches at the current position, given the character before it (if any) and
  the rest of the text; \<open>re_search\<close> tries every position from left to right, as
  \<open>re.search\<close> does.
\<close>

datatype re_item = Lit char | Boundary | Spaces

definition word_before :: "char option \<Rightarrow> bool" where
  "word_before p = (case p of None \<Rightarrow> False | Some c \<Rightarrow> is_word c)"

definition word_after :: "string \<Rightarrow> bool" where
  "word_after s = (case s of [] \<Rightarrow> False | c # _ \<Rightarrow> is_word c)"

fun re_match :: "re_item list \<Rightarrow> char option \<Rightarrow> string \<Rightarrow> bool" where
  "re_match [] p s = True"
| "re_match (Boundary # r) p s = (word_before p \<noteq> word_after s \<and> re_match r p s)"
| "re_match (Lit c # r) p [] = False"
| "re_match (Lit c # r) p (x # xs) = (x = c \<and> re_match r (Some x) xs)"
| "re_match (Spaces # r) p [] = False"
| "re_match (Spaces # r) p (x # xs) =
     (is_space x \<and> (re_match (Spaces # r) (Some x) xs \<or> re_match r (Some x) xs))"

fun re_search_from :: "re_item list \<Rightarrow> char option \<Rightarrow> string \<Rightarrow> bool" where
  "re_search_from r p [] = re_match r p []"
| "re_search_from r p (x # xs) = (re_match r p (x # xs) \<or> re_search_from r (Some x) xs)"

definition re_search :: "re_item list \<Rightarrow> string \<Rightarrow> bool" where
  "re_search r s = re_search_from r None s"

definition lits :: "string \<Rightarrow> re_item list" where
  "lits w = map Lit w"

section \<open>Crisis detection\<close>

definition CRISIS_KEYWORDS :: "string list" where
  "CRISIS_KEYWORDS =
     [''suicide'', ''kill myself'', ''end my life'', ''want to die'', ''harm myself'',
      ''self harm'', ''cut myself'', ''overdose'', ''not worth living'', ''better off dead'',
      ''hopeless'', ''can'' @ [CHR 0x27] @ ''t go on'', ''give up'', ''end it all'',
      ''hurt myself'']"

definition CRISIS_PHRASES :: "string list" where
  "CRISIS_PHRASES =
     [''i want to die'',
      ''i'' @ [CHR 0x27] @ ''m going to kill myself'',
      ''life isn'' @ [CHR 0x27] @ ''t worth living'',
      ''i can'' @ [CHR 0x27] @ ''t take it anymore'',
      ''nobody would miss me'',
      ''i'' @ [CHR 0x27] @ ''m done with life'']"

definition crisis_patterns :: "re_item list list" where
  "crisis_patterns =
     [Boundary # lits ''i'' @ Spaces # lits ''want'' @ Spaces # lits ''to'' @ Spaces
        # lits ''die'' @ [Boundary],
      Boundary # lits ''kill'' @ Spaces # lits ''myself'' @ [Boundary],
      Boundary # lits ''commit'' @ Spaces # lits ''suicide'' @ [Boundary],
      Boundary # lits ''end'' @ Spaces # lits ''my'' @ Spaces # lits ''life'' @ [Boundary]]"

text \<open>Each of the three loops returns at its first hit.\<close>

fun any_contained :: "string list \<Rightarrow> string \<Rightarrow> bool" where
  "any_contained [] t = False"
| "any_contained (k # ks) t = (if contains k t then True else any_contained ks t)"

fun any_pattern :: "re_item list list \<Rightarrow> string \<Rightarrow> bool" where
  "any_pattern [] t = False"
| "any_pattern (r # rs) t = (if re_search r t then True else any_pattern rs t)"

definition detect_crisis :: "string \<Rightarrow> bool" where
  "detect_crisis text =
     (let text_lower = lower text
      in if any_contained CRISIS_KEYWORDS text_lower then True
         else if any_contained CRISIS_PHRASES text_lower then True
         else if any_pattern crisis_patterns text_lower then True
         else False)"

section \<open>Sentiment analysis\<close>

text \<open>
  \<open>polarity_scores\<close> belongs to the VADER library, not to this program: it is a parameter
  of the model. A Python float is modelled by the real number it denotes; the comparisons
  of \<open>analyze_sentiment\<close> are order comparisons, which floats decide exactly.
\<close>

record polarity =
  vs_compound :: real
  vs_pos :: real
  vs_neg :: real
  vs_neu :: real

record sentiment =
  compound :: real
  positive :: real
  negative :: real
  neutral :: real
  label :: string
  emotional_state :: string

definition analyze_sentiment :: "(string \<Rightarrow> polarity) \<Rightarrow> string \<Rightarrow> sentiment" where
  "analyze_sentiment polarity_scores text =
     (let scores = polarity_scores text;
          c = vs_compound scores;
          l = (if c \<ge> 0.05 then ''positive''
               else if c \<le> - 0.05 then ''negative''
               else ''neutral'');
          e = (if c \<le> - 0.5 then ''very_negative''
               else if c \<le> - 0.2 then ''negative''
               else if c \<ge> 0.5 then ''very_positive''
               else if c \<ge> 0.2 then ''positive''
               else ''neutral'')
      in \<lparr>compound = c, positive = vs_pos scores, negative = vs_neg scores,
          neutral = vs_neu scores, label = l, emotional_state = e\<rparr>)"

section \<open>The resource catalog\<close>

text \<open>A dictionary literal is an association list in the order of the source.\<close>

type_synonym resource = "(string \<times> string) list"

definition MENTAL_HEALTH_RESOURCES :: "(string \<times> resource list) list" where
  "MENTAL_HEALTH_RESOURCES =
     [(''crisis'',
       [[(''name'', ''National Suicide Prevention Lifeline''),
         (''phone'', ''988''),
         (''description'', ''24/7 crisis support and suicide prevention'')],
        [(''name'', ''Crisis Text Line''),
         (''phone'', ''Text HOME to 741741''),
         (''description'', ''24/7 crisis support via text'')],
        [(''name'', ''International Association for Suicide Prevention''),
         (''website'', ''https://www.iasp.info/resources/Crisis_Centres/''),
         (''description'', ''Global crisis centers directory'')]]),
      (''general'',
       [[(''name'', ''Mental Health America''),
         (''website'', ''https://www.mhanational.org/finding-help''),
         (''description'', ''Mental health resources and support'')],
        [(''name'', ''NAMI (National Alliance on Mental Illness)''),
         (''website'', ''https://www.nami.org/help''),
         (''description'', ''Mental health education and support'')],
        [(''name'', ''Psychology Today Therapist Finder''),
         (''website'', ''https://www.psychologytoday.com/us/therapists''),
         (''description'', ''Find therapists and mental health professionals'')]]),
      (''coping_strategies'',
       [[(''name'', ''Box Breathing''),
         (''description'',
          ''Breathe in for 4, hold for 4, out for 4, hold for 4. Repeat 4 times.''),
         (''category'', ''anxiety'')],
        [(''name'', ''5-4-3-2-1 Grounding''),
         (''description'',
          ''Name 5 things you see, 4 you can touch, 3 you hear, 2 you smell, 1 you taste.''),
         (''category'', ''anxiety'')],
        [(''name'', ''Progressive Muscle Relaxation''),
         (''description'', ''Tense and relax each muscle group from toes to head.''),
         (''category'', ''stress'')],
        [(''name'', ''Thought Reframing''),
         (''description'',
          ''Challenge negative thoughts by asking: Is this realistic? What would I tell a friend?''),
         (''category'', ''depression'')]])]"

section \<open>Documents, collaborators and the state of the world\<close>

record user_session =
  us_id :: string
  nickname :: "string option"
  created_at :: string
  last_activity :: string
  settings :: "(string \<times> string) list"

record chat_message =
  cm_id :: string
  cm_session_id :: string
  cm_content :: string
  is_user :: bool
  timestamp :: string
  sentiment_score :: "real option"
  sentiment_label :: "string option"
  crisis_detected :: bool

record chat_request =
  rq_message :: string
  rq_session_id :: "string option"

record chat_response =
  rs_message :: string
  rs_session_id :: string
  rs_crisis_detected :: bool
  rs_sentiment :: "sentiment option"
  rs_resources :: "resource list option"

record context_message =
  role :: string
  content :: string

text \<open>
  What \<open>client.chat.completions.create\<close> does: it raises, or it returns a response whose
  choices each carry a content that may be \<open>None\<close>.
\<close>

datatype completion = ServiceError | Choices "string option list"

text \<open>The places of \<open>chat\<close> where the document store is called; each call may raise.\<close>

datatype store_call =
  InsertSession | InsertUserMessage | FindMessages | InsertAiMessage | UpdateSession

text \<open>
  The environment of one chat turn: the two collaborators, which store calls raise, and
  the values drawn from \<open>uuid4()\<close> and \<open>datetime.now(timezone.utc).isoformat()\<close>.
\<close>

record env =
  polarity_scores :: "string \<Rightarrow> polarity"
  completions_create :: "context_message list \<Rightarrow> completion"
  store_fault :: "store_call \<Rightarrow> bool"
  uuid4_session :: string
  uuid4_user_message :: string
  uuid4_ai_message :: string
  now_session_created :: string
  now_session_activity :: string
  now_user_message :: string
  now_ai_message :: string
  now_update :: string

text \<open>Every call to a collaborator is logged when it is made, whatever its outcome.\<close>

datatype event =
  SessionsInsertOne user_session
| MessagesInsertOne chat_message
| MessagesFind string
| CompletionsCreate string "context_message list" nat real
| SessionsUpdateOne string string

record world =
  sessions :: "user_session list"
  messages :: "chat_message list"
  calls :: "event list"

datatype exn = StoreError | KeyError

datatype http_exception = HTTPException nat string

definition log_call :: "event \<Rightarrow> world \<Rightarrow> world" where
  "log_call e w = w\<lparr>calls := calls w @ [e]\<rparr>"

definition sessions_insert_one ::
  "env \<Rightarrow> store_call \<Rightarrow> user_session \<Rightarrow> world \<Rightarrow> (exn + unit) \<times> world" where
  "sessions_insert_one env site s w =
     (let w' = log_call (SessionsInsertOne s) w
      in if store_fault env site then (Inl StoreError, w')
         else (Inr (), w'\<lparr>sessions := sessions w' @ [s]\<rparr>))"

definition messages_insert_one ::
  "env \<Rightarrow> store_call \<Rightarrow> chat_message \<Rightarrow> world \<Rightarrow> (exn + unit) \<times> world" where
  "messages_insert_one env site m w =
     (let w' = log_call (MessagesInsertOne m) w
      in if store_fault env site then (Inl StoreError, w')
         else (Inr (), w'\<lparr>messages := messages w' @ [m]\<rparr>))"

text \<open>\<open>update_one\<close> with \<open>$set\<close> changes the first session whose id matches.\<close>

fun set_last_activity :: "string \<Rightarrow> string \<Rightarrow> user_session list \<Rightarrow> user_session list" where
  "set_last_activity sid t [] = []"
| "set_last_activity sid t (s # ss) =
     (if us_id s = sid then s\<lparr>last_activity := t\<rparr> # ss
      else s # set_last_activity sid t ss)"

definition sessions_update_one ::
  "env \<Rightarrow> store_call \<Rightarrow> string \<Rightarrow> string \<Rightarrow> world \<Rightarrow> (exn + unit) \<times> world" where
  "sessions_update_one env site sid t w =
     (let w' = log_call (SessionsUpdateOne sid t) w
      in if store_fault env site then (Inl StoreError, w')
         else (Inr (), w'\<lparr>sessions := set_last_activity sid t (sessions w')\<rparr>))"

text \<open>
  \<open>find({"session_id": sid}).sort("timestamp", -1).limit(6)\<close>: the messages of the
  session, newest first by their timestamp strings, at most six of them. The store fixes
  no order among equal timestamps; the model takes the reverse of a stable sort.
\<close>

definition find_recent :: "chat_message list \<Rightarrow> string \<Rightarrow> chat_message list" where
  "find_recent msgs sid =
     take 6 (rev (sort_key timestamp (filter (\<lambda>m. cm_session_id m = sid) msgs)))"

section \<open>The context and the reply of the generation service\<close>

definition system_prompt :: "string" where
  "system_prompt =
     ''You are a compassionate mental health support chatbot. Your role is to:''
     @ [CHR 0x0A, CHR 0x0A]
     @ ''1. Provide empathetic, supportive responses'' @ [CHR 0x0A]
     @ ''2. Encourage users to seek professional help when appropriate'' @ [CHR 0x0A]
     @ ''3. Never provide medical diagnoses or specific medical advice'' @ [CHR 0x0A]
     @ ''4. Offer coping strategies and emotional support'' @ [CHR 0x0A]
     @ ''5. Be mindful of crisis situations and respond appropriately''
     @ [CHR 0x0A, CHR 0x0A]
     @ ''IMPORTANT SAFETY RULES:'' @ [CHR 0x0A]
     @ ''- Always include disclaimers about not being a replacement for professional help''
     @ [CHR 0x0A]
     @ ''- For any crisis situations, provide immediate support resources'' @ [CHR 0x0A]
     @ ''- Focus on validation, empathy, and gentle guidance'' @ [CHR 0x0A]
     @ ''- Use warm, supportive language'' @ [CHR 0x0A]
     @ ''- Keep responses concise but meaningful (2-3 sentences typically)''
     @ [CHR 0x0A, CHR 0x0A]
     @ ''Remember: You are NOT a licensed therapist. ''
     @ ''You provide peer support and encourage professional help.''"

definition crisis_addendum :: "string" where
  "crisis_addendum =
     [CHR 0x0A, CHR 0x0A]
     @ ''IMPORTANT: The user may be in crisis. Prioritize immediate safety and provide ''
     @ ''crisis resources. Be extra supportive and encourage immediate professional help.''"

definition crisis_fallback :: "string" where
  "crisis_fallback =
     ''I'' @ [CHR 0x27] @ ''m here to listen and support you. Please reach out to a crisis ''
     @ ''helpline immediately if you'' @ [CHR 0x27] @ ''re having thoughts of self-harm. ''
     @ ''You can call 988 (Suicide Prevention Lifeline) or text HOME to 741741. ''
     @ ''Your life has value and there are people who want to help.''"

definition generic_fallback :: "string" where
  "generic_fallback =
     ''I'' @ [CHR 0x27] @ ''m here to support you, though I'' @ [CHR 0x27]
     @ ''m having trouble generating a response right now. Remember that it'' @ [CHR 0x27]
     @ ''s always okay to reach out to a mental health professional if you need ''
     @ ''additional support.''"

definition fallback :: "bool \<Rightarrow> string" where
  "fallback crisis = (if crisis then crisis_fallback else generic_fallback)"

definition history_entry :: "chat_message \<Rightarrow> context_message" where
  "history_entry msg =
     \<lparr>role = (if is_user msg then ''user'' else ''assistant''), content = cm_content msg\<rparr>"

text \<open>
  The list \<open>context_messages\<close> as the source builds it: the system prompt, then one
  \<open>append\<close> for each message of \<open>reversed(recent_messages)\<close>, then the current message.
\<close>

definition build_context :: "bool \<Rightarrow> chat_message list \<Rightarrow> string \<Rightarrow> context_message list" where
  "build_context crisis recent_messages message =
     (let prompt = (if crisis then system_prompt @ crisis_addendum else system_prompt);
          context_messages = [\<lparr>role = ''system'', content = prompt\<rparr>];
          context_messages =
            foldl (\<lambda>acc msg. acc @ [history_entry msg]) context_messages (rev recent_messages)
      in context_messages @ [\<lparr>role = ''user'', content = message\<rparr>])"

text \<open>
  \<open>generate_ai_response\<close> never raises: whatever goes wrong inside its \<open>try\<close> (the query
  of the store, the call of the service, an empty list of choices, a content that is
  \<open>None\<close>) ends in one of the two fixed replies.
\<close>

definition generate_ai_response ::
  "env \<Rightarrow> world \<Rightarrow> string \<Rightarrow> string \<Rightarrow> bool \<Rightarrow> string \<times> world" where
  "generate_ai_response env w message session_id crisis =
     (let w1 = log_call (MessagesFind session_id) w
      in if store_fault env FindMessages then (fallback crisis, w1)
         else
           let recent_messages = find_recent (messages w1) session_id;
               context_messages = build_context crisis recent_messages message;
               w2 = log_call (CompletionsCreate ''gpt-4o-mini'' context_messages 200 0.7) w1
           in case completions_create env context_messages of
                ServiceError \<Rightarrow> (fallback crisis, w2)
              | Choices [] \<Rightarrow> (fallback crisis, w2)
              | Choices (None # _) \<Rightarrow> (fallback crisis, w2)
              | Choices (Some text # _) \<Rightarrow> (strip text, w2))"

section \<open>The chat turn\<close>

definition new_session :: "env \<Rightarrow> user_session" where
  "new_session env =
     \<lparr>us_id = uuid4_session env, nickname = None, created_at = now_session_created env,
      last_activity = now_session_activity env, settings = []\<rparr>"

definition user_message :: "env \<Rightarrow> string \<Rightarrow> string \<Rightarrow> chat_message" where
  "user_message env session_id text =
     (let s = analyze_sentiment (polarity_scores env) text
      in \<lparr>cm_id = uuid4_user_message env, cm_session_id = session_id, cm_content = text,
          is_user = True, timestamp = now_user_message env,
          sentiment_score = Some (compound s), sentiment_label = Some (label s),
          crisis_detected = detect_crisis text\<rparr>)"

definition ai_message :: "env \<Rightarrow> string \<Rightarrow> string \<Rightarrow> chat_message" where
  "ai_message env session_id ai_response =
     \<lparr>cm_id = uuid4_ai_message env, cm_session_id = session_id, cm_content = ai_response,
      is_user = False, timestamp = now_ai_message env,
      sentiment_score = None, sentiment_label = None, crisis_detected = False\<rparr>"

text \<open>\<open>not session_id\<close> holds for \<open>None\<close> and for the empty string.\<close>

definition ensure_session :: "env \<Rightarrow> world \<Rightarrow> string option \<Rightarrow> (exn + string) \<times> world" where
  "ensure_session env w sid =
     (case sid of
        Some (c # cs) \<Rightarrow> (Inr (c # cs), w)
      | _ \<Rightarrow>
          (case sessions_insert_one env InsertSession (new_session env) w of
             (Inl e, w') \<Rightarrow> (Inl e, w')
           | (Inr u, w') \<Rightarrow> (Inr (us_id (new_session env)), w')))"

definition crisis_resources :: "exn + resource list" where
  "crisis_resources =
     (case map_of MENTAL_HEALTH_RESOURCES ''crisis'' of
        None \<Rightarrow> Inl KeyError
      | Some r \<Rightarrow> Inr r)"

text \<open>
  The body of the \<open>try\<close> of \<open>chat\<close>, in the order of the source. The store is not
  transactional: what was written before an exception stays written.
\<close>

definition make_response :: "string \<Rightarrow> string \<Rightarrow> bool \<Rightarrow> sentiment \<Rightarrow> exn + chat_response" where
  "make_response ai_response session_id crisis sentiment =
     (let response =
            \<lparr>rs_message = ai_response, rs_session_id = session_id,
             rs_crisis_detected = crisis, rs_sentiment = Some sentiment,
             rs_resources = None\<rparr>
      in if crisis then
           (case crisis_resources of
              Inl e \<Rightarrow> Inl e
            | Inr r \<Rightarrow> Inr (response\<lparr>rs_resources := Some r\<rparr>))
         else Inr response)"

definition save_reply :: "env \<Rightarrow> world \<Rightarrow> string \<Rightarrow> string \<Rightarrow> (exn + unit) \<times> world" where
  "save_reply env w session_id ai_response =
     (case messages_insert_one env InsertAiMessage (ai_message env session_id ai_response) w of
        (Inl e, w') \<Rightarrow> (Inl e, w')
      | (Inr u, w') \<Rightarrow> sessions_update_one env UpdateSession session_id (now_update env) w')"

definition reply_turn ::
  "env \<Rightarrow> world \<Rightarrow> string \<Rightarrow> string \<Rightarrow> sentiment \<Rightarrow> bool \<Rightarrow> (exn + chat_response) \<times> world" where
  "reply_turn env w session_id text sentiment crisis =
     (let (ai_response, w3) = generate_ai_response env w text session_id crisis
      in case save_reply env w3 session_id ai_response of
           (Inl e, w5) \<Rightarrow> (Inl e, w5)
         | (Inr u, w5) \<Rightarrow> (make_response ai_response session_id crisis sentiment, w5))"

definition chat_turn ::
  "env \<Rightarrow> world \<Rightarrow> string \<Rightarrow> string \<Rightarrow> (exn + chat_response) \<times> world" where
  "chat_turn env w session_id text =
     (let sentiment = analyze_sentiment (polarity_scores env) text;
          crisis = detect_crisis text
      in case messages_insert_one env InsertUserMessage (user_message env session_id text) w of
           (Inl e, w2) \<Rightarrow> (Inl e, w2)
         | (Inr u, w2) \<Rightarrow> reply_turn env w2 session_id text sentiment crisis)"

definition chat_body :: "env \<Rightarrow> world \<Rightarrow> chat_request \<Rightarrow> (exn + chat_response) \<times> world" where
  "chat_body env w request =
     (case ensure_session env w (rq_session_id request) of
        (Inl e, w1) \<Rightarrow> (Inl e, w1)
      | (Inr session_id, w1) \<Rightarrow> chat_turn env w1 session_id (rq_message request))"

definition chat :: "env \<Rightarrow> world \<Rightarrow> chat_request \<Rightarrow> (http_exception + chat_response) \<times> world" where
  "chat env w request =
     (case chat_body env w request of
        (Inl e, w') \<Rightarrow> (Inl (HTTPException 500 ''Internal server error''), w')
      | (Inr response, w') \<Rightarrow> (Inr response, w'))"

section \<open>Sentiment trends\<close>

record trend =
  date :: string
  avg_sentiment :: real
  message_count :: nat

text \<open>The summary dictionary; \<open>days_analyzed = None\<close> says that the key is absent.\<close>

record summary =
  sm_avg_sentiment :: real
  total_messages :: nat
  days_analyzed :: "int option"

record trends_result =
  trends :: "trend list"
  summary :: summary

text \<open>
  The query of \<open>get_sentiment_trends\<close>: the user messages of the session that carry a
  score and are not older than \<open>start\<close> (the ISO string of the start date, which the
  clock decides), oldest first.
\<close>

definition find_scored :: "chat_message list \<Rightarrow> string \<Rightarrow> string \<Rightarrow> chat_message list" where
  "find_scored msgs sid start =
     sort_key timestamp
       (filter (\<lambda>m. cm_session_id m = sid \<and> is_user m \<and> sentiment_score m \<noteq> None
                    \<and> start \<le> timestamp m) msgs)"

text \<open>
  Timestamps in the store are written by \<open>isoformat()\<close>; on such a string
  \<open>fromisoformat(...).date().isoformat()\<close> is its first ten characters.
\<close>

definition date_key :: "string \<Rightarrow> string" where
  "date_key ts = take 10 ts"

text \<open>\<open>daily_sentiments[date_key].append(score)\<close> on a dictionary that keeps insertion order.\<close>

fun append_score :: "string \<Rightarrow> real \<Rightarrow> (string \<times> real list) list \<Rightarrow> (string \<times> real list) list" where
  "append_score k v [] = [(k, [v])]"
| "append_score k v ((k', vs) # d) =
     (if k' = k then (k', vs @ [v]) # d else (k', vs) # append_score k v d)"

definition score_of :: "chat_message \<Rightarrow> real" where
  "score_of m = (case sentiment_score m of Some v \<Rightarrow> v | None \<Rightarrow> 0)"

definition group_by_day :: "chat_message list \<Rightarrow> (string \<times> real list) list" where
  "group_by_day msgs =
     foldl (\<lambda>d m. append_score (date_key (timestamp m)) (score_of m) d) [] msgs"

definition daily_trend :: "string \<times> real list \<Rightarrow> trend" where
  "daily_trend p =
     (case p of (d, scores) \<Rightarrow>
        \<lparr>date = d, avg_sentiment = sum_list scores / real (length scores),
         message_count = length scores\<rparr>)"

definition get_sentiment_trends :: "world \<Rightarrow> string \<Rightarrow> int \<Rightarrow> string \<Rightarrow> trends_result" where
  "get_sentiment_trends w session_id days start =
     (let msgs = find_scored (messages w) session_id start
      in if msgs = [] then
           \<lparr>trends = [],
            summary = \<lparr>sm_avg_sentiment = 0, total_messages = 0, days_analyzed = None\<rparr>\<rparr>
         else
           let all_scores = map score_of msgs
           in \<lparr>trends = map daily_trend (group_by_day msgs),
               summary = \<lparr>sm_avg_sentiment = sum_list all_scores / real (length all_scores),
                          total_messages = length msgs,
                          days_analyzed = Some days\<rparr>\<rparr>)"

section \<open>Notions derived from the chat turn\<close>

text \<open>
  The value of the variable \<open>session_id\<close> once the first block of \<open>chat\<close> has run, and
  whether that block creates a session.
\<close>

definition creates_session :: "chat_request \<Rightarrow> bool" where
  "creates_session request =
     (case rq_session_id request of Some (c # cs) \<Rightarrow> False | _ \<Rightarrow> True)"

definition turn_session_id :: "env \<Rightarrow> chat_request \<Rightarrow> string" where
  "turn_session_id env request =
     (case rq_session_id request of Some (c # cs) \<Rightarrow> c # cs | _ \<Rightarrow> uuid4_session env)"

text \<open>The store calls of \<open>chat\<close> itself that raise in this turn.\<close>

definition store_write_faults :: "env \<Rightarrow> chat_request \<Rightarrow> bool" where
  "store_write_faults env request =
     ((creates_session request \<and> store_fault env InsertSession)
      \<or> store_fault env InsertUserMessage \<or> store_fault env InsertAiMessage
      \<or> store_fault env UpdateSession)"

text \<open>The world in which \<open>generate_ai_response\<close> is called, and the text it returns.\<close>

definition generation_world :: "env \<Rightarrow> world \<Rightarrow> chat_request \<Rightarrow> world" where
  "generation_world env w request =
     snd (messages_insert_one env InsertUserMessage
            (user_message env (turn_session_id env request) (rq_message request))
            (snd (ensure_session env w (rq_session_id request))))"

definition turn_reply :: "env \<Rightarrow> world \<Rightarrow> chat_request \<Rightarrow> string" where
  "turn_reply env w request =
     fst (generate_ai_response env (generation_world env w request) (rq_message request)
            (turn_session_id env request) (detect_crisis (rq_message request)))"

text \<open>
  The outcomes of the service call on which a statement inside the \<open>try\<close> of
  \<open>generate_ai_response\<close> raises: the call itself, \<open>choices[0]\<close> on an empty list,
  \<open>.strip()\<close> on a content that is \<open>None\<close>.
\<close>

fun generation_fails :: "completion \<Rightarrow> bool" where
  "generation_fails ServiceError = True"
| "generation_fails (Choices []) = True"
| "generation_fails (Choices (None # cs)) = True"
| "generation_fails (Choices (Some t # cs)) = False"

section \<open>Concrete environments\<close>

definition calm_scores :: "string \<Rightarrow> polarity" where
  "calm_scores t = \<lparr>vs_compound = 0, vs_pos = 0, vs_neg = 0, vs_neu = 1\<rparr>"

definition offline_env :: env where
  "offline_env =
     \<lparr>polarity_scores = calm_scores,
      completions_create = (\<lambda>ctx. ServiceError),
      store_fault = (\<lambda>c. False),
      uuid4_session = ''s-1'', uuid4_user_message = ''m-1'', uuid4_ai_message = ''m-2'',
      now_session_created = ''2024-05-01T10:00:00.000100+00:00'',
      now_session_activity = ''2024-05-01T10:00:00.000200+00:00'',
      now_user_message = ''2024-05-01T10:00:00.000300+00:00'',
      now_ai_message = ''2024-05-01T10:00:00.000400+00:00'',
      now_update = ''2024-05-01T10:00:00.000500+00:00''\<rparr>"

definition online_env :: env where
  "online_env = offline_env\<lparr>completions_create := (\<lambda>ctx. Choices [Some '' Take care. ''])\<rparr>"

definition empty_world :: world where
  "empty_world = \<lparr>sessions = [], messages = [], calls = []\<rparr>"

text \<open>A store that holds three earlier turns of the session \<open>s-0\<close>.\<close>

definition stored :: "string \<Rightarrow> bool \<Rightarrow> string \<Rightarrow> chat_message" where
  "stored t u c =
     \<lparr>cm_id = ''id-'' @ c, cm_session_id = ''s-0'', cm_content = c, is_user = u,
      timestamp = t, sentiment_score = (if u then Some 0 else None),
      sentiment_label = (if u then Some ''neutral'' else None), crisis_detected = False\<rparr>"

definition busy_world :: world where
  "busy_world =
     \<lparr>sessions = [],
      messages =
        [stored ''2024-05-01T09:00:01.000000+00:00'' True ''a'',
         stored ''2024-05-01T09:00:02.000000+00:00'' False ''b'',
         stored ''2024-05-01T09:00:03.000000+00:00'' True ''c'',
         stored ''2024-05-01T09:00:04.000000+00:00'' False ''d'',
         stored ''2024-05-01T09:00:05.000000+00:00'' True ''e'',
         stored ''2024-05-01T09:00:06.000000+00:00'' False ''f''],
      calls = []\<rparr>"

section \<open>Crisis detection on the word boundary\<close>

text \<open>
  C1, as the specification states it: \<open>detect_crisis("I want to diet")\<close> is false. It is
  not: the text is flagged.
\<close>

theorem detect_crisis_diet_counterexample:
  "\<not> (detect_crisis ''I want to diet'' = False)"
  by code_simp

text \<open>
  C1, amended: \<open>detect_crisis("I want to diet")\<close> is true, because the keyword
  \<open>want to die\<close> of the keyword list (and likewise the phrase \<open>i want to die\<close> of the
  phrase list) occurs in the lowered text as a substring; the word boundary is kept by
  the four patterns only, none of which matches this text, while the first of them does
  match \<open>I want to die\<close>.
\<close>

theorem detect_crisis_diet_substring:
  "detect_crisis ''I want to diet''
   \<and> ''want to die'' \<in> set CRISIS_KEYWORDS
   \<and> contains ''want to die'' (lower ''I want to diet'')
   \<and> ''i want to die'' \<in> set CRISIS_PHRASES
   \<and> contains ''i want to die'' (lower ''I want to diet'')
   \<and> \<not> any_pattern crisis_patterns (lower ''I want to diet'')
   \<and> any_pattern crisis_patterns (lower ''I want to die'')"
  by code_simp

section \<open>Labels and intensities of the sentiment\<close>

text \<open>
  C5: for every text, the label is positive exactly when the compound score is at least
  0.05, negative exactly when it is at most -0.05 and neutral exactly in between; the
  emotional state is very_negative exactly when the score is at most -0.5, negative
  exactly when it lies in (-0.5, -0.2], very_positive exactly when it is at least 0.5,
  positive exactly when it lies in [0.2, 0.5) and neutral exactly in between. The
  compound score is the one the scorer returned.
\<close>

theorem analyze_sentiment_thresholds:
  "(let r = analyze_sentiment ps t; c = compound r
    in c = vs_compound (ps t)
     \<and> (label r = ''positive'') = (c \<ge> 0.05)
     \<and> (label r = ''negative'') = (c \<le> - 0.05)
     \<and> (label r = ''neutral'') = (- 0.05 < c \<and> c < 0.05)
     \<and> (emotional_state r = ''very_negative'') = (c \<le> - 0.5)
     \<and> (emotional_state r = ''negative'') = (- 0.5 < c \<and> c \<le> - 0.2)
     \<and> (emotional_state r = ''very_positive'') = (c \<ge> 0.5)
     \<and> (emotional_state r = ''positive'') = (0.2 \<le> c \<and> c < 0.5)
     \<and> (emotional_state r = ''neutral'') = (- 0.2 < c \<and> c < 0.2))"
  unfolding analyze_sentiment_def Let_def by auto

section \<open>What a chat turn calls, returns and stores\<close>

lemma foldl_append_map: "foldl (\<lambda>acc msg. acc @ [f msg]) acc xs = acc @ map f xs"
  by (induction xs arbitrary: acc) simp_all

lemma build_context_closed:
  "build_context crisis recent message =
     \<lparr>role = ''system'',
      content = (if crisis then system_prompt @ crisis_addendum else system_prompt)\<rparr>
     # map history_entry (rev recent) @ [\<lparr>role = ''user'', content = message\<rparr>]"
  by (simp add: build_context_def Let_def foldl_append_map)

lemma length_find_recent: "length (find_recent msgs sid) \<le> 6"
  by (simp add: find_recent_def)

lemma find_recent_newest_first: "sorted (rev (map timestamp (find_recent msgs sid)))"
proof -
  let ?xs = "sort_key timestamp (filter (\<lambda>m. cm_session_id m = sid) msgs)"
  have "rev (map timestamp (find_recent msgs sid)) = drop (length ?xs - 6) (map timestamp ?xs)"
    by (simp add: find_recent_def rev_map rev_take drop_map)
  moreover have "sorted (map timestamp ?xs)" by (rule sorted_sort_key)
  ultimately show ?thesis by simp
qed

lemma generate_ai_response_calls:
  "calls (snd (generate_ai_response env w message sid crisis)) =
     calls w @ MessagesFind sid #
       (if store_fault env FindMessages then []
        else [CompletionsCreate ''gpt-4o-mini''
                (build_context crisis (find_recent (messages w) sid) message) 200 0.7])"
  by (simp add: generate_ai_response_def log_call_def Let_def
           split: completion.splits list.splits option.splits)

lemma generate_ai_response_store:
  "messages (snd (generate_ai_response env w message sid crisis)) = messages w"
  "sessions (snd (generate_ai_response env w message sid crisis)) = sessions w"
  by (simp_all add: generate_ai_response_def log_call_def Let_def
           split: completion.splits list.splits option.splits)

lemma ensure_session_eq:
  "ensure_session env w (rq_session_id request) =
     (if creates_session request then
        (if store_fault env InsertSession then Inl StoreError
         else Inr (turn_session_id env request),
         w\<lparr>calls := calls w @ [SessionsInsertOne (new_session env)],
           sessions := (if store_fault env InsertSession then sessions w
                        else sessions w @ [new_session env])\<rparr>)
      else (Inr (turn_session_id env request), w))"
  by (auto simp: ensure_session_def creates_session_def turn_session_id_def
        sessions_insert_one_def log_call_def Let_def new_session_def
      split: option.splits list.splits)

lemma save_reply_calls:
  "calls (snd (save_reply env w sid ai)) =
     calls w @ MessagesInsertOne (ai_message env sid ai) #
       (if store_fault env InsertAiMessage then [] else [SessionsUpdateOne sid (now_update env)])"
  by (simp add: save_reply_def messages_insert_one_def sessions_update_one_def log_call_def Let_def)

lemma save_reply_messages:
  "messages (snd (save_reply env w sid ai)) =
     (if store_fault env InsertAiMessage then messages w
      else messages w @ [ai_message env sid ai])"
  by (simp add: save_reply_def messages_insert_one_def sessions_update_one_def log_call_def Let_def)

lemma reply_turn_calls:
  "calls (snd (reply_turn env w sid msg s crisis)) =
     calls w @ MessagesFind sid #
       (if store_fault env FindMessages then []
        else [CompletionsCreate ''gpt-4o-mini''
                (build_context crisis (find_recent (messages w) sid) msg) 200 0.7])
       @ MessagesInsertOne (ai_message env sid (fst (generate_ai_response env w msg sid crisis))) #
       (if store_fault env InsertAiMessage then [] else [SessionsUpdateOne sid (now_update env)])"
proof -
  obtain ai w3 where g: "generate_ai_response env w msg sid crisis = (ai, w3)"
    by (cases "generate_ai_response env w msg sid crisis")
  have c3: "calls w3 = calls w @ MessagesFind sid #
       (if store_fault env FindMessages then []
        else [CompletionsCreate ''gpt-4o-mini''
                (build_context crisis (find_recent (messages w) sid) msg) 200 0.7])"
    using generate_ai_response_calls [of env w msg sid crisis] g by simp
  have "calls (snd (reply_turn env w sid msg s crisis)) = calls (snd (save_reply env w3 sid ai))"
    by (simp add: reply_turn_def g split: prod.splits sum.splits)
  then show ?thesis using c3 g by (simp add: save_reply_calls)
qed

lemma reply_turn_messages:
  "set (messages w) \<subseteq> set (messages (snd (reply_turn env w sid msg s crisis)))"
proof -
  obtain ai w3 where g: "generate_ai_response env w msg sid crisis = (ai, w3)"
    by (cases "generate_ai_response env w msg sid crisis")
  have m3: "messages w3 = messages w"
    using generate_ai_response_store(1) [of env w msg sid crisis] g by simp
  have "messages (snd (reply_turn env w sid msg s crisis)) = messages (snd (save_reply env w3 sid ai))"
    by (simp add: reply_turn_def g split: prod.splits sum.splits)
  then show ?thesis using m3 by (auto simp: save_reply_messages)
qed


lemma before_first:
  "S @ U # rest = pre @ C # post \<Longrightarrow> C \<notin> set S \<Longrightarrow> C \<noteq> U \<Longrightarrow> U \<in> set pre"
  by (auto simp: append_eq_append_conv2 Cons_eq_append_conv append_eq_Cons_conv)

lemma chat_turn_calls:
  "\<exists>rest. calls (snd (chat_turn env w sid msg)) =
     calls w @ MessagesInsertOne (user_message env sid msg) # rest
     \<and> (store_fault env InsertUserMessage \<longrightarrow> rest = [])"
proof (cases "store_fault env InsertUserMessage")
  case True
  then show ?thesis
    by (simp add: chat_turn_def messages_insert_one_def log_call_def Let_def)
next
  case False
  let ?um = "user_message env sid msg"
  let ?w2 = "w\<lparr>calls := calls w @ [MessagesInsertOne ?um], messages := messages w @ [?um]\<rparr>"
  have "chat_turn env w sid msg =
          reply_turn env ?w2 sid msg (analyze_sentiment (polarity_scores env) msg) (detect_crisis msg)"
    using False by (simp add: chat_turn_def messages_insert_one_def log_call_def Let_def)
  then show ?thesis using False by (simp add: reply_turn_calls)
qed

lemma chat_turn_messages:
  "\<not> store_fault env InsertUserMessage \<Longrightarrow>
     user_message env sid msg \<in> set (messages (snd (chat_turn env w sid msg)))"
proof -
  assume nf: "\<not> store_fault env InsertUserMessage"
  let ?um = "user_message env sid msg"
  let ?w2 = "w\<lparr>calls := calls w @ [MessagesInsertOne ?um], messages := messages w @ [?um]\<rparr>"
  let ?s = "analyze_sentiment (polarity_scores env) msg"
  have "chat_turn env w sid msg = reply_turn env ?w2 sid msg ?s (detect_crisis msg)"
    using nf by (simp add: chat_turn_def messages_insert_one_def log_call_def Let_def)
  moreover have "set (messages ?w2) \<subseteq> set (messages (snd (reply_turn env ?w2 sid msg ?s (detect_crisis msg))))"
    by (rule reply_turn_messages)
  ultimately show ?thesis by auto
qed

lemma snd_chat: "snd (chat env w request) = snd (chat_body env w request)"
  by (simp add: chat_def split: prod.splits sum.splits)


lemma make_response_eq:
  "make_response ai sid crisis s =
     Inr \<lparr>rs_message = ai, rs_session_id = sid, rs_crisis_detected = crisis,
          rs_sentiment = Some s,
          rs_resources = (if crisis then map_of MENTAL_HEALTH_RESOURCES ''crisis'' else None)\<rparr>"
  by (simp add: make_response_def Let_def crisis_resources_def MENTAL_HEALTH_RESOURCES_def)

lemma save_reply_fst:
  "fst (save_reply env w sid ai) =
     (if store_fault env InsertAiMessage \<or> store_fault env UpdateSession then Inl StoreError
      else Inr ())"
  by (simp add: save_reply_def messages_insert_one_def sessions_update_one_def log_call_def Let_def)

lemma reply_turn_fst:
  "fst (reply_turn env w sid msg s crisis) =
     (if store_fault env InsertAiMessage \<or> store_fault env UpdateSession then Inl StoreError
      else make_response (fst (generate_ai_response env w msg sid crisis)) sid crisis s)"
proof -
  obtain ai w3 where g: "generate_ai_response env w msg sid crisis = (ai, w3)"
    by (cases "generate_ai_response env w msg sid crisis")
  obtain r w5 where sr: "save_reply env w3 sid ai = (r, w5)"
    by (cases "save_reply env w3 sid ai")
  have "r = (if store_fault env InsertAiMessage \<or> store_fault env UpdateSession then Inl StoreError
      else Inr ())"
    using save_reply_fst [of env w3 sid ai] sr by simp
  then show ?thesis
    by (simp add: reply_turn_def g sr split: if_splits)
qed

lemma chat_body_fst:
  "fst (chat_body env w request) =
     (if store_write_faults env request then Inl StoreError
      else make_response (turn_reply env w request) (turn_session_id env request)
             (detect_crisis (rq_message request))
             (analyze_sentiment (polarity_scores env) (rq_message request)))"
  by (auto simp: chat_body_def ensure_session_eq chat_turn_def messages_insert_one_def Let_def
        log_call_def reply_turn_fst store_write_faults_def turn_reply_def generation_world_def)

lemma chat_fst:
  "fst (chat env w request) =
     (if store_write_faults env request then Inl (HTTPException 500 ''Internal server error'')
      else Inr \<lparr>rs_message = turn_reply env w request,
               rs_session_id = turn_session_id env request,
               rs_crisis_detected = detect_crisis (rq_message request),
               rs_sentiment = Some (analyze_sentiment (polarity_scores env) (rq_message request)),
               rs_resources = (if detect_crisis (rq_message request)
                               then map_of MENTAL_HEALTH_RESOURCES ''crisis'' else None)\<rparr>)"
proof -
  have "fst (chat env w request) =
      (case fst (chat_body env w request) of
         Inl e \<Rightarrow> Inl (HTTPException 500 ''Internal server error'') | Inr r \<Rightarrow> Inr r)"
    by (simp add: chat_def split: prod.splits sum.splits)
  then show ?thesis by (simp add: chat_body_fst make_response_eq)
qed


lemma save_reply_store:
  "\<not> store_fault env InsertAiMessage \<Longrightarrow> \<not> store_fault env UpdateSession \<Longrightarrow>
   messages (snd (save_reply env w sid ai)) = messages w @ [ai_message env sid ai]
   \<and> sessions (snd (save_reply env w sid ai)) = set_last_activity sid (now_update env) (sessions w)"
  by (simp add: save_reply_def messages_insert_one_def sessions_update_one_def log_call_def Let_def)

lemma reply_turn_store:
  assumes "\<not> store_fault env InsertAiMessage" and "\<not> store_fault env UpdateSession"
  shows "messages (snd (reply_turn env w sid msg s crisis)) =
           messages w @ [ai_message env sid (fst (generate_ai_response env w msg sid crisis))]
         \<and> sessions (snd (reply_turn env w sid msg s crisis)) =
           set_last_activity sid (now_update env) (sessions w)"
proof -
  obtain ai w3 where g: "generate_ai_response env w msg sid crisis = (ai, w3)"
    by (cases "generate_ai_response env w msg sid crisis")
  have st: "messages w3 = messages w" "sessions w3 = sessions w"
    using generate_ai_response_store [of env w msg sid crisis] g by simp_all
  have "snd (reply_turn env w sid msg s crisis) = snd (save_reply env w3 sid ai)"
    by (simp add: reply_turn_def g split: prod.splits sum.splits)
  then show ?thesis using save_reply_store [OF assms, of w3 sid ai] st g by simp
qed

lemma chat_store:
  assumes "\<not> store_write_faults env request"
  shows "messages (snd (chat env w request)) =
           messages w @ [user_message env (turn_session_id env request) (rq_message request),
                         ai_message env (turn_session_id env request) (turn_reply env w request)]
         \<and> sessions (snd (chat env w request)) =
           set_last_activity (turn_session_id env request) (now_update env)
             (if creates_session request then sessions w @ [new_session env] else sessions w)"
proof -
  let ?sid = "turn_session_id env request"
  let ?msg = "rq_message request"
  let ?w2 = "generation_world env w request"
  have nf: "\<not> (creates_session request \<and> store_fault env InsertSession)"
    "\<not> store_fault env InsertUserMessage" "\<not> store_fault env InsertAiMessage"
    "\<not> store_fault env UpdateSession"
    using assms by (auto simp: store_write_faults_def)
  have body: "snd (chat env w request) =
      snd (reply_turn env ?w2 ?sid ?msg (analyze_sentiment (polarity_scores env) ?msg)
             (detect_crisis ?msg))"
    using nf by (auto simp: snd_chat chat_body_def ensure_session_eq chat_turn_def
        messages_insert_one_def log_call_def Let_def generation_world_def)
  have w2: "messages ?w2 = messages w @ [user_message env ?sid ?msg]"
    "sessions ?w2 = (if creates_session request then sessions w @ [new_session env] else sessions w)"
    using nf by (auto simp: generation_world_def ensure_session_eq messages_insert_one_def
        log_call_def Let_def)
  show ?thesis
    using reply_turn_store [OF nf(3) nf(4), of ?w2 ?sid ?msg
        "analyze_sentiment (polarity_scores env) ?msg" "detect_crisis ?msg"] body w2
    by (simp add: turn_reply_def)
qed

section \<open>The user message is stored before the service is called\<close>

text \<open>
  C4: within one chat turn, whenever the generation service is called, the call that
  inserts the user message into the message store was made earlier in the same turn and
  the message is in the store when the turn ends; if the two store calls before the
  generation step do not raise, the user message is in the final store whatever the
  generation service does. The stored user message carries the text, the compound
  sentiment score and the crisis flag.
\<close>

theorem user_message_before_generation:
  "(calls (snd (chat env w request)) = calls w @ pre @ CompletionsCreate m ctx k t # post \<longrightarrow>
      MessagesInsertOne (user_message env (turn_session_id env request) (rq_message request))
        \<in> set pre
      \<and> user_message env (turn_session_id env request) (rq_message request)
        \<in> set (messages (snd (chat env w request))))
   \<and> (\<not> store_fault env InsertSession \<and> \<not> store_fault env InsertUserMessage \<longrightarrow>
      user_message env (turn_session_id env request) (rq_message request)
        \<in> set (messages (snd (chat env w request))))
   \<and> cm_content (user_message env sid msg) = msg
   \<and> is_user (user_message env sid msg)
   \<and> sentiment_score (user_message env sid msg) = Some (vs_compound (polarity_scores env msg))
   \<and> crisis_detected (user_message env sid msg) = detect_crisis msg"
proof -
  have fields: "cm_content (user_message env sid msg) = msg
     \<and> is_user (user_message env sid msg)
     \<and> sentiment_score (user_message env sid msg) = Some (vs_compound (polarity_scores env msg))
     \<and> crisis_detected (user_message env sid msg) = detect_crisis msg"
    by (simp add: user_message_def analyze_sentiment_def Let_def)
  let ?um = "user_message env (turn_session_id env request) (rq_message request)"
  let ?w1 = "snd (ensure_session env w (rq_session_id request))"
  let ?S = "if creates_session request then [SessionsInsertOne (new_session env)] else []"
  have w1: "calls ?w1 = calls w @ ?S" by (simp add: ensure_session_eq)
  show ?thesis
  proof (cases "creates_session request \<and> store_fault env InsertSession")
    case True
    then have "calls (snd (chat env w request)) = calls w @ [SessionsInsertOne (new_session env)]"
      by (simp add: snd_chat chat_body_def ensure_session_eq)
    then show ?thesis using True fields by (auto simp: Cons_eq_append_conv)
  next
    case False
    then have body: "snd (chat env w request) =
        snd (chat_turn env ?w1 (turn_session_id env request) (rq_message request))"
      by (auto simp: snd_chat chat_body_def ensure_session_eq)
    obtain rest where rest:
      "calls (snd (chat env w request)) = calls ?w1 @ MessagesInsertOne ?um # rest"
      "store_fault env InsertUserMessage \<longrightarrow> rest = []"
      using chat_turn_calls [of env ?w1 "turn_session_id env request" "rq_message request"] body
      by auto
    have stored: "\<not> store_fault env InsertUserMessage \<Longrightarrow> ?um \<in> set (messages (snd (chat env w request)))"
      using chat_turn_messages [of env "turn_session_id env request" "rq_message request" ?w1] body
      by simp
    have first: "MessagesInsertOne ?um \<in> set pre \<and> \<not> store_fault env InsertUserMessage"
      if eq: "calls (snd (chat env w request)) = calls w @ pre @ CompletionsCreate m ctx k t # post"
    proof -
      from eq rest(1) w1 have e: "?S @ MessagesInsertOne ?um # rest = pre @ CompletionsCreate m ctx k t # post"
        by simp
      have "MessagesInsertOne ?um \<in> set pre"
        by (rule before_first [OF e]) auto
      moreover have "rest \<noteq> []" using e by (auto simp: append_eq_append_conv2 Cons_eq_append_conv append_eq_Cons_conv split: if_splits)
      ultimately show ?thesis using rest(2) by auto
    qed
    show ?thesis using first stored fields by blast
  qed
qed

theorem user_message_before_generation_witness:
  "calls (snd (chat online_env empty_world \<lparr>rq_message = ''hello'', rq_session_id = Some ''s-0''\<rparr>)) =
     calls empty_world
     @ [MessagesInsertOne (user_message online_env ''s-0'' ''hello''), MessagesFind ''s-0'']
     @ CompletionsCreate ''gpt-4o-mini''
         [\<lparr>role = ''system'', content = system_prompt\<rparr>,
          \<lparr>role = ''user'', content = ''hello''\<rparr>,
          \<lparr>role = ''user'', content = ''hello''\<rparr>] 200 0.7
     # [MessagesInsertOne (ai_message online_env ''s-0'' ''Take care.''),
        SessionsUpdateOne ''s-0'' (now_update online_env)]
   \<and> \<not> store_fault online_env InsertSession \<and> \<not> store_fault online_env InsertUserMessage
   \<and> MessagesInsertOne (user_message online_env ''s-0'' ''hello'')
       \<in> set [MessagesInsertOne (user_message online_env ''s-0'' ''hello''), MessagesFind ''s-0'']
   \<and> user_message online_env ''s-0'' ''hello''
       \<in> set (messages (snd (chat online_env empty_world
                                \<lparr>rq_message = ''hello'', rq_session_id = Some ''s-0''\<rparr>)))
   \<and> crisis_detected (user_message online_env ''s-0'' ''hello'') = detect_crisis ''hello''"
proof -
  let ?r = "\<lparr>rq_message = ''hello'', rq_session_id = Some ''s-0''\<rparr>"
  have sid: "turn_session_id online_env ?r = ''s-0''"
    by (simp add: turn_session_id_def)
  have h: "calls (snd (chat online_env empty_world ?r)) =
     calls empty_world
     @ [MessagesInsertOne (user_message online_env ''s-0'' ''hello''), MessagesFind ''s-0'']
     @ CompletionsCreate ''gpt-4o-mini''
         [\<lparr>role = ''system'', content = system_prompt\<rparr>,
          \<lparr>role = ''user'', content = ''hello''\<rparr>,
          \<lparr>role = ''user'', content = ''hello''\<rparr>] 200 0.7
     # [MessagesInsertOne (ai_message online_env ''s-0'' ''Take care.''),
        SessionsUpdateOne ''s-0'' (now_update online_env)]"
    by code_simp
  have f: "\<not> store_fault online_env InsertSession \<and> \<not> store_fault online_env InsertUserMessage"
    by (simp add: online_env_def offline_env_def)
  show ?thesis
    using user_message_before_generation
      [where env = online_env and w = empty_world and request = ?r
         and pre = "[MessagesInsertOne (user_message online_env ''s-0'' ''hello''), MessagesFind ''s-0'']"
         and m = "''gpt-4o-mini''"
         and ctx = "[\<lparr>role = ''system'', content = system_prompt\<rparr>,
                     \<lparr>role = ''user'', content = ''hello''\<rparr>,
                     \<lparr>role = ''user'', content = ''hello''\<rparr>]"
         and k = 200 and t = "0.7"
         and post = "[MessagesInsertOne (ai_message online_env ''s-0'' ''Take care.''),
                      SessionsUpdateOne ''s-0'' (now_update online_env)]"
         and sid = "''s-0''" and msg = "''hello''"]
      h f sid
    by simp
qed

section \<open>A failing generation service\<close>

text \<open>
  C2: if the query of the store or the call of the generation service fails (the call
  raises, returns no choice, or a first choice without content), \<open>generate_ai_response\<close>
  returns the crisis fallback when the crisis flag is set and the generic fallback
  otherwise. It calls the service at most once, so nothing is retried. In a chat turn
  whose service always fails and whose own store calls do not raise, the response is
  returned with that fallback as its message; \<open>chat\<close> returns an error exactly when one of
  its own store calls raises, so the failure of the service never reaches the caller.
\<close>

theorem generation_failure_fallback:
  "(store_fault env FindMessages
      \<or> generation_fails (completions_create env
                             (build_context crisis (find_recent (messages w) sid) msg)) \<longrightarrow>
      fst (generate_ai_response env w msg sid crisis) =
        (if crisis then crisis_fallback else generic_fallback))
   \<and> calls (snd (generate_ai_response env w msg sid crisis)) =
       calls w @ MessagesFind sid #
         (if store_fault env FindMessages then []
          else [CompletionsCreate ''gpt-4o-mini''
                  (build_context crisis (find_recent (messages w) sid) msg) 200 0.7])
   \<and> ((\<forall>ctx. generation_fails (completions_create env ctx))
        \<and> \<not> store_write_faults env request \<longrightarrow>
        (\<exists>resp. fst (chat env w request) = Inr resp
           \<and> rs_crisis_detected resp = detect_crisis (rq_message request)
           \<and> rs_message resp =
               (if rs_crisis_detected resp then crisis_fallback else generic_fallback)))
   \<and> isl (fst (chat env w request)) = store_write_faults env request"
proof -
  have a: "fst (generate_ai_response env w msg sid crisis) =
        (if crisis then crisis_fallback else generic_fallback)"
    if "store_fault env FindMessages
      \<or> generation_fails (completions_create env
                             (build_context crisis (find_recent (messages w) sid) msg))"
    for env w msg sid crisis
    using that
    by (cases "completions_create env (build_context crisis (find_recent (messages w) sid) msg)"
          rule: generation_fails.cases)
       (auto simp: generate_ai_response_def log_call_def Let_def fallback_def)
  have c: "turn_reply env w request =
      (if detect_crisis (rq_message request) then crisis_fallback else generic_fallback)"
    if "\<forall>ctx. generation_fails (completions_create env ctx)"
    unfolding turn_reply_def using that by (intro a) simp
  show ?thesis
    using a [of env crisis w sid msg] c
    by (simp add: generate_ai_response_calls chat_fst)
qed

theorem generation_failure_fallback_witness:
  "generation_fails (completions_create offline_env
       (build_context False (find_recent (messages empty_world) ''s-0'') ''hello''))
   \<and> fst (generate_ai_response offline_env empty_world ''hello'' ''s-0'' False) = generic_fallback
   \<and> (\<forall>ctx. generation_fails (completions_create offline_env ctx))
   \<and> \<not> store_write_faults offline_env \<lparr>rq_message = ''I feel hopeless'', rq_session_id = None\<rparr>
   \<and> (\<exists>resp. fst (chat offline_env empty_world
                      \<lparr>rq_message = ''I feel hopeless'', rq_session_id = None\<rparr>) = Inr resp
         \<and> rs_crisis_detected resp \<and> rs_message resp = crisis_fallback)"
proof -
  let ?r = "\<lparr>rq_message = ''I feel hopeless'', rq_session_id = None\<rparr>"
  have h1: "\<forall>ctx. generation_fails (completions_create offline_env ctx)"
    by (simp add: offline_env_def)
  have h2: "\<not> store_write_faults offline_env ?r"
    by (simp add: store_write_faults_def offline_env_def)
  have h3: "detect_crisis (rq_message ?r)"
    by code_simp
  show ?thesis
    using generation_failure_fallback
      [where env = offline_env and w = empty_world and msg = "''hello''" and sid = "''s-0''"
         and crisis = False and request = ?r]
      h1 h2 h3
    by auto
qed

section \<open>Resources go with the crisis flag\<close>

text \<open>
  C3: in the response of every chat turn that returns one, the resources are present
  exactly when the crisis flag is set, the flag is the outcome of the crisis detection
  on the message, and the resources are then the three entries of the \<open>crisis\<close> category
  of the catalog.
\<close>

theorem chat_resources_iff_crisis:
  "fst (chat env w request) = Inr resp \<Longrightarrow>
     rs_crisis_detected resp = detect_crisis (rq_message request)
     \<and> (rs_resources resp \<noteq> None) = rs_crisis_detected resp
     \<and> rs_resources resp =
         (if rs_crisis_detected resp then map_of MENTAL_HEALTH_RESOURCES ''crisis'' else None)
     \<and> map_of MENTAL_HEALTH_RESOURCES ''crisis'' =
         Some [[(''name'', ''National Suicide Prevention Lifeline''),
                (''phone'', ''988''),
                (''description'', ''24/7 crisis support and suicide prevention'')],
               [(''name'', ''Crisis Text Line''),
                (''phone'', ''Text HOME to 741741''),
                (''description'', ''24/7 crisis support via text'')],
               [(''name'', ''International Association for Suicide Prevention''),
                (''website'', ''https://www.iasp.info/resources/Crisis_Centres/''),
                (''description'', ''Global crisis centers directory'')]]"
proof -
  assume r: "fst (chat env w request) = Inr resp"
  have cat: "map_of MENTAL_HEALTH_RESOURCES ''crisis'' =
         Some [[(''name'', ''National Suicide Prevention Lifeline''),
                (''phone'', ''988''),
                (''description'', ''24/7 crisis support and suicide prevention'')],
               [(''name'', ''Crisis Text Line''),
                (''phone'', ''Text HOME to 741741''),
                (''description'', ''24/7 crisis support via text'')],
               [(''name'', ''International Association for Suicide Prevention''),
                (''website'', ''https://www.iasp.info/resources/Crisis_Centres/''),
                (''description'', ''Global crisis centers directory'')]]"
    by (simp add: MENTAL_HEALTH_RESOURCES_def)
  from r have "\<not> store_write_faults env request"
    by (auto simp: chat_fst split: if_splits)
  with r have "resp = \<lparr>rs_message = turn_reply env w request,
               rs_session_id = turn_session_id env request,
               rs_crisis_detected = detect_crisis (rq_message request),
               rs_sentiment = Some (analyze_sentiment (polarity_scores env) (rq_message request)),
               rs_resources = (if detect_crisis (rq_message request)
                               then map_of MENTAL_HEALTH_RESOURCES ''crisis'' else None)\<rparr>"
    by (simp add: chat_fst)
  then show ?thesis using cat by simp
qed

theorem chat_resources_iff_crisis_witness:
  "fst (chat offline_env empty_world \<lparr>rq_message = ''I feel hopeless'', rq_session_id = None\<rparr>) =
     Inr \<lparr>rs_message = crisis_fallback, rs_session_id = ''s-1'', rs_crisis_detected = True,
          rs_sentiment = Some \<lparr>compound = 0, positive = 0, negative = 0, neutral = 1,
                                label = ''neutral'', emotional_state = ''neutral''\<rparr>,
          rs_resources = map_of MENTAL_HEALTH_RESOURCES ''crisis''\<rparr>
   \<and> detect_crisis ''I feel hopeless''
   \<and> map_of MENTAL_HEALTH_RESOURCES ''crisis'' \<noteq> None"
proof -
  let ?r = "\<lparr>rq_message = ''I feel hopeless'', rq_session_id = None\<rparr>"
  let ?resp = "\<lparr>rs_message = crisis_fallback, rs_session_id = ''s-1'', rs_crisis_detected = True,
          rs_sentiment = Some \<lparr>compound = 0, positive = 0, negative = 0, neutral = 1,
                                label = ''neutral'', emotional_state = ''neutral''\<rparr>,
          rs_resources = map_of MENTAL_HEALTH_RESOURCES ''crisis''\<rparr>"
  have h: "fst (chat offline_env empty_world ?r) = Inr ?resp"
    by code_simp
  show ?thesis
    using chat_resources_iff_crisis [where env = offline_env and w = empty_world
        and request = ?r and resp = ?resp, OF h] h
    by simp
qed

section \<open>The context handed to the generation service\<close>

text \<open>
  C6: the context that \<open>generate_ai_response\<close> hands to the generation service is the
  system message, then the fetched history in chronological order (the store returns it
  newest first, and the loop over \<open>reversed(recent_messages)\<close> emits it oldest first), then
  the current user message as the last entry.
\<close>

theorem context_chronological:
  "build_context crisis (find_recent (messages w) sid) msg =
     \<lparr>role = ''system'',
      content = (if crisis then system_prompt @ crisis_addendum else system_prompt)\<rparr>
     # map history_entry (rev (find_recent (messages w) sid))
     @ [\<lparr>role = ''user'', content = msg\<rparr>]
   \<and> sorted (rev (map timestamp (find_recent (messages w) sid)))
   \<and> sorted (map timestamp (rev (find_recent (messages w) sid)))
   \<and> last (build_context crisis (find_recent (messages w) sid) msg) =
       \<lparr>role = ''user'', content = msg\<rparr>
   \<and> calls (snd (generate_ai_response env w msg sid crisis)) =
       calls w @ MessagesFind sid #
         (if store_fault env FindMessages then []
          else [CompletionsCreate ''gpt-4o-mini''
                  (build_context crisis (find_recent (messages w) sid) msg) 200 0.7])"
  using find_recent_newest_first [of "messages w" sid]
  by (simp add: build_context_closed generate_ai_response_calls rev_map)

text \<open>
  C7, as the specification states it: the context never has more than 7 entries. With six
  stored messages in the session it has more.
\<close>

theorem context_over_seven_counterexample:
  "\<not> length (build_context False (find_recent (messages busy_world) ''s-0'') ''hello'') \<le> 7"
  by code_simp

text \<open>
  C7, amended: the context has exactly one system message, the fetched history of at most
  6 messages and the current user message, hence never more than 8 entries; this holds
  for the context of every chat turn as well, and a session with six stored messages
  reaches 8.
\<close>

theorem context_at_most_eight:
  "length (build_context crisis (find_recent (messages w) sid) msg) =
     1 + length (find_recent (messages w) sid) + 1
   \<and> length (find_recent (messages w) sid) \<le> 6
   \<and> length (build_context crisis (find_recent (messages w) sid) msg) \<le> 8
   \<and> length (build_context (detect_crisis (rq_message request))
               (find_recent (messages (generation_world env w request))
                  (turn_session_id env request))
               (rq_message request)) \<le> 8
   \<and> length (build_context False (find_recent (messages busy_world) ''s-0'') ''hello'') = 8"
proof -
  have "length (build_context False (find_recent (messages busy_world) ''s-0'') ''hello'') = 8"
    by code_simp
  then show ?thesis
    using length_find_recent [of "messages w" sid]
      length_find_recent [of "messages (generation_world env w request)"
        "turn_session_id env request"]
    by (simp add: build_context_closed)
qed

section \<open>A chat request without a session id\<close>

text \<open>
  C10: if the request carries no session id (or an empty one) and the store calls of
  \<open>chat\<close> do not raise, the turn is not rejected: \<open>chat\<close> inserts a new session, returns a
  response whose session id is the id of that session, and stores the user message and
  the reply under that id.
\<close>

theorem chat_without_session_id:
  "rq_session_id request = None \<or> rq_session_id request = Some [] \<Longrightarrow>
   \<not> store_write_faults env request \<Longrightarrow>
     (\<exists>resp. fst (chat env w request) = Inr resp
        \<and> rs_session_id resp = uuid4_session env
        \<and> us_id (new_session env) = uuid4_session env
        \<and> SessionsInsertOne (new_session env) \<in> set (calls (snd (chat env w request)))
        \<and> sessions (snd (chat env w request)) =
            set_last_activity (uuid4_session env) (now_update env)
              (sessions w @ [new_session env])
        \<and> (\<exists>s \<in> set (sessions (snd (chat env w request))). us_id s = rs_session_id resp)
        \<and> messages (snd (chat env w request)) =
            messages w @ [user_message env (uuid4_session env) (rq_message request),
                          ai_message env (uuid4_session env) (rs_message resp)]
        \<and> cm_session_id (user_message env (uuid4_session env) (rq_message request)) =
            rs_session_id resp
        \<and> cm_session_id (ai_message env (uuid4_session env) (rs_message resp)) =
            rs_session_id resp)"
proof -
  assume none: "rq_session_id request = None \<or> rq_session_id request = Some []"
    and nf: "\<not> store_write_faults env request"
  have cr: "creates_session request" and sid: "turn_session_id env request = uuid4_session env"
    using none by (auto simp: creates_session_def turn_session_id_def)
  have upd: "\<exists>s \<in> set (set_last_activity i t (xs @ [n])). us_id s = i" if "us_id n = i"
    for i t xs and n :: user_session
    using that by (induction xs) auto
  have ns: "us_id (new_session env) = uuid4_session env"
    by (simp add: new_session_def)
  have ins: "SessionsInsertOne (new_session env) \<in> set (calls (snd (chat env w request)))"
  proof -
    have "\<not> (creates_session request \<and> store_fault env InsertSession)"
      using nf by (simp add: store_write_faults_def)
    then have "snd (chat env w request) =
        snd (chat_turn env (snd (ensure_session env w (rq_session_id request)))
               (turn_session_id env request) (rq_message request))"
      by (auto simp: snd_chat chat_body_def ensure_session_eq)
    moreover have "calls (snd (ensure_session env w (rq_session_id request))) =
        calls w @ [SessionsInsertOne (new_session env)]"
      using cr by (simp add: ensure_session_eq)
    ultimately show ?thesis
      using chat_turn_calls [of env "snd (ensure_session env w (rq_session_id request))"
          "turn_session_id env request" "rq_message request"]
      by auto
  qed
  show ?thesis
    using chat_store [OF nf, of w] nf cr sid ns ins upd [OF ns]
    by (simp add: chat_fst user_message_def ai_message_def Let_def)
qed

theorem chat_without_session_id_witness:
  "(rq_session_id \<lparr>rq_message = ''hello'', rq_session_id = None\<rparr> = None
      \<or> rq_session_id \<lparr>rq_message = ''hello'', rq_session_id = None\<rparr> = Some [])
   \<and> \<not> store_write_faults online_env \<lparr>rq_message = ''hello'', rq_session_id = None\<rparr>
   \<and> (\<exists>resp. fst (chat online_env empty_world \<lparr>rq_message = ''hello'', rq_session_id = None\<rparr>)
                = Inr resp
         \<and> rs_session_id resp = ''s-1''
         \<and> messages (snd (chat online_env empty_world
                             \<lparr>rq_message = ''hello'', rq_session_id = None\<rparr>)) =
             [user_message online_env ''s-1'' ''hello'',
              ai_message online_env ''s-1'' (rs_message resp)])"
proof -
  let ?r = "\<lparr>rq_message = ''hello'', rq_session_id = None\<rparr>"
  have h1: "rq_session_id ?r = None \<or> rq_session_id ?r = Some []"
    by simp
  have h2: "\<not> store_write_faults online_env ?r"
    by (simp add: store_write_faults_def online_env_def offline_env_def)
  have u: "uuid4_session online_env = ''s-1''"
    by (simp add: online_env_def offline_env_def)
  have m: "messages empty_world = []"
    by (simp add: empty_world_def)
  show ?thesis
    using chat_without_session_id [where env = online_env and w = empty_world
        and request = ?r, OF h1 h2] h2 u m
    by auto
qed

section \<open>Sentiment trends of an empty window\<close>

text \<open>
  C9, as the specification states it: for an empty list of messages the result has no
  trends and a summary with average 0, count 0 and \<open>days_analyzed\<close> equal to the requested
  window. The summary of the empty case has no \<open>days_analyzed\<close> at all.
\<close>

theorem empty_trends_days_counterexample:
  "\<not> (trends (get_sentiment_trends empty_world ''s-0'' 7 ''2024-04-24T10:00:00.000000+00:00'') = []
      \<and> sm_avg_sentiment
           (summary (get_sentiment_trends empty_world ''s-0'' 7
                       ''2024-04-24T10:00:00.000000+00:00'')) = 0
      \<and> total_messages
           (summary (get_sentiment_trends empty_world ''s-0'' 7
                       ''2024-04-24T10:00:00.000000+00:00'')) = 0
      \<and> days_analyzed
           (summary (get_sentiment_trends empty_world ''s-0'' 7
                       ''2024-04-24T10:00:00.000000+00:00'')) = Some 7)"
  by (simp add: get_sentiment_trends_def find_scored_def empty_world_def)

text \<open>
  C9, amended: when the query finds no message (no user message of the session with a
  score inside the window), the result has no trends and a summary with average 0 and
  count 0 and without \<open>days_analyzed\<close>; when it finds messages, \<open>days_analyzed\<close> is the
  requested number of days, not a number measured from the data, and the count is the
  number of messages found.
\<close>

theorem empty_trends_summary:
  "(find_scored (messages w) sid start = [] \<longrightarrow>
      get_sentiment_trends w sid days start =
        \<lparr>trends = [],
         summary = \<lparr>sm_avg_sentiment = 0, total_messages = 0, days_analyzed = None\<rparr>\<rparr>)
   \<and> (find_scored (messages w) sid start \<noteq> [] \<longrightarrow>
      days_analyzed (summary (get_sentiment_trends w sid days start)) = Some days
      \<and> total_messages (summary (get_sentiment_trends w sid days start)) =
          length (find_scored (messages w) sid start))
   \<and> (find_scored (messages w) sid start = []) =
       (\<forall>m \<in> set (messages w).
          \<not> (cm_session_id m = sid \<and> is_user m \<and> sentiment_score m \<noteq> None
             \<and> start \<le> timestamp m))"
proof -
  have "(sort_key timestamp xs = []) = (xs = [])" for xs :: "chat_message list"
    using length_sort [of timestamp xs] by (metis length_0_conv)
  then show ?thesis
    by (simp add: get_sentiment_trends_def find_scored_def Let_def filter_empty_conv)
qed

theorem empty_trends_summary_witness:
  "find_scored (messages empty_world) ''s-0'' ''2024-04-24T10:00:00.000000+00:00'' = []
   \<and> get_sentiment_trends empty_world ''s-0'' 7 ''2024-04-24T10:00:00.000000+00:00'' =
        \<lparr>trends = [],
         summary = \<lparr>sm_avg_sentiment = 0, total_messages = 0, days_analyzed = None\<rparr>\<rparr>
   \<and> find_scored (messages busy_world) ''s-0'' ''2024-04-24T10:00:00.000000+00:00'' \<noteq> []
   \<and> days_analyzed (summary (get_sentiment_trends busy_world ''s-0'' 7
                               ''2024-04-24T10:00:00.000000+00:00'')) = Some 7
   \<and> total_messages (summary (get_sentiment_trends busy_world ''s-0'' 7
                                ''2024-04-24T10:00:00.000000+00:00'')) = 3"
proof -
  have e: "find_scored (messages empty_world) ''s-0'' ''2024-04-24T10:00:00.000000+00:00'' = []"
    by code_simp
  have b: "length (find_scored (messages busy_world) ''s-0''
                     ''2024-04-24T10:00:00.000000+00:00'') = 3"
    by code_simp
  then have b': "find_scored (messages busy_world) ''s-0''
                   ''2024-04-24T10:00:00.000000+00:00'' \<noteq> []"
    by auto
  show ?thesis
    using empty_trends_summary [where w = empty_world and sid = "''s-0''"
        and start = "''2024-04-24T10:00:00.000000+00:00''" and days = 7]
      empty_trends_summary [where w = busy_world and sid = "''s-0''"
        and start = "''2024-04-24T10:00:00.000000+00:00''" and days = 7]
      e b b'
    by simp
qed

end
